theory Spec2Isabelle
  imports Main "HOL-Library.Word" "HOL-Library.Sublist"
begin

section \<open>Elarus: the translation request pipeline of \<^verbatim>\<open>main.js\<close>\<close>

text \<open>
  A shallow embedding of \<^verbatim>\<open>src/main.js\<close>. Every function of the source is a HOL
  function of the same name. What JavaScript leaves to its environment is an explicit
  input of the model: the outcome of each \<^verbatim>\<open>fetch\<close>, the redis client and its faults,
  the language detector \<^verbatim>\<open>franc\<close>, the clock and the decision of the rate limiter.
  Exceptions are values (\<open>Inl\<close> of a sum), and every effect on the outside world
  (a redis command, a fetch, a sleep, a log line) is an entry of an event trace.
\<close>

subsection \<open>JavaScript strings\<close>

text \<open>
  A JavaScript string is a sequence of UTF-16 code units, and \<^verbatim>\<open>s.length\<close> counts
  code units. \<open>lit\<close> embeds an ASCII literal of the source.
\<close>

type_synonym jschar = "16 word"
type_synonym jsstring = "jschar list"

definition lit :: "string \<Rightarrow> jsstring" where
  "lit s = map of_char s"

text \<open>
  \<^verbatim>\<open>String.prototype.trim\<close> strips WhiteSpace and LineTerminator code points from both
  ends; the regular expression class \<^verbatim>\<open>\s\<close> is the same set (ECMAScript 2015 and later).
\<close>

definition is_white_space :: "jschar \<Rightarrow> bool" where
  "is_white_space c \<longleftrightarrow>
     c = 0x0009 \<or> c = 0x000A \<or> c = 0x000B \<or> c = 0x000C \<or> c = 0x000D \<or> c = 0x0020 \<or>
     c = 0x00A0 \<or> c = 0x1680 \<or> (0x2000 \<le> c \<and> c \<le> 0x200A) \<or> c = 0x2028 \<or>
     c = 0x2029 \<or> c = 0x202F \<or> c = 0x205F \<or> c = 0x3000 \<or> c = 0xFEFF"

definition trim :: "jsstring \<Rightarrow> jsstring" where
  "trim s = rev (dropWhile is_white_space (rev (dropWhile is_white_space s)))"

text \<open>\<^verbatim>\<open>s.includes(sub)\<close>: \<open>sub\<close> occurs in \<open>s\<close> as a contiguous block.\<close>

fun js_includes :: "jsstring \<Rightarrow> jsstring \<Rightarrow> bool" where
  "js_includes [] sub = (sub = [])"
| "js_includes (c # cs) sub = (prefix sub (c # cs) \<or> js_includes cs sub)"

text \<open>
  The decimal text of a non-negative integer, as a template literal prints a number
  such as \<^verbatim>\<open>text.length\<close> or \<^verbatim>\<open>response.status\<close>.
\<close>

fun show_nat :: "nat \<Rightarrow> jsstring" where
  "show_nat n =
     (if n < 10 then [of_nat (48 + n)]
      else show_nat (n div 10) @ [of_nat (48 + n mod 10)])"

definition is_digit :: "jschar \<Rightarrow> bool" where
  "is_digit c \<longleftrightarrow> 0x30 \<le> c \<and> c \<le> 0x39"

text \<open>\<^verbatim>\<open>parseInt\<close> on a string of decimal digits.\<close>

definition parseInt :: "jsstring \<Rightarrow> nat" where
  "parseInt ds = foldl (\<lambda>n d. 10 * n + (unat d - 48)) 0 ds"

subsection \<open>Configuration\<close>

definition GROQ_MODEL :: jsstring where
  "GROQ_MODEL = lit ''openai/gpt-oss-120b''"

definition API_URL :: jsstring where
  "API_URL = lit ''https://api.groq.com/openai/v1/chat/completions''"

definition CACHE_EXPIRY_SECONDS :: nat where
  "CACHE_EXPIRY_SECONDS = 60 * 60 * 24 * 7"

definition MAX_RETRIES :: nat where
  "MAX_RETRIES = 5"

definition BASE_DELAY :: nat where
  "BASE_DELAY = 1000"

definition MAX_TEXT_LENGTH :: nat where
  "MAX_TEXT_LENGTH = 2000"

subsection \<open>Errors\<close>

text \<open>
  What the source throws: a \<^verbatim>\<open>TranslationError\<close> (message, status code, details; the
  constructor's defaults are 400 and \<^verbatim>\<open>null\<close>), or any other \<^verbatim>\<open>Error\<close>, of which the
  program only ever reads the message. A \<^verbatim>\<open>TypeError\<close> raised by the engine is such an
  \<open>Error\<close>; its message text is the engine's and is an input of the model.
\<close>

datatype exn =
    TranslationError (message: jsstring) (statusCode: nat) (details: "jsstring option")
  | Error (message: jsstring)

subsection \<open>Input validation\<close>

text \<open>
  A field of the parsed JSON body, by what \<^verbatim>\<open>(v || '').trim()\<close> does with it:
  \<^item> \<open>Falsy\<close>: the field is absent, \<^verbatim>\<open>null\<close>, \<^verbatim>\<open>false\<close> or \<^verbatim>\<open>0\<close>, and \<^verbatim>\<open>||\<close> yields \<^verbatim>\<open>''\<close>;
  \<^item> \<open>Str s\<close>: the field is the string \<open>s\<close> (the empty string is falsy, and \<^verbatim>\<open>||\<close>
    yields \<^verbatim>\<open>''\<close> again);
  \<^item> \<open>Truthy m\<close>: any other value (\<^verbatim>\<open>true\<close>, a non-zero number, an array, an object).
    It has no \<^verbatim>\<open>trim\<close> method, so the call raises a \<^verbatim>\<open>TypeError\<close>, whose message is \<open>m\<close>.
\<close>

datatype json_field = Falsy | Str jsstring | Truthy jsstring

record request_body =
  body_text :: json_field
  body_target_lang :: json_field

definition trimmed :: "json_field \<Rightarrow> exn + jsstring" where
  "trimmed v =
     (case v of
        Falsy \<Rightarrow> Inr (trim [])
      | Str s \<Rightarrow> Inr (trim s)
      | Truthy m \<Rightarrow> Inl (Error m))"

definition is_ascii_letter :: "jschar \<Rightarrow> bool" where
  "is_ascii_letter c \<longleftrightarrow> (0x41 \<le> c \<and> c \<le> 0x5A) \<or> (0x61 \<le> c \<and> c \<le> 0x7A)"

text \<open>The test \<^verbatim>\<open>/^[A-Za-z\s\-]+$/.test(targetLang)\<close>.\<close>

definition target_lang_format :: "jsstring \<Rightarrow> bool" where
  "target_lang_format s \<longleftrightarrow>
     s \<noteq> [] \<and> list_all (\<lambda>c. is_ascii_letter c \<or> is_white_space c \<or> c = 0x2D) s"

text \<open>
  \<open>validateInput\<close>: \<open>None\<close> is a falsy \<^verbatim>\<open>data\<close>. Both fields are trimmed (lines 71 and
  72) before any check is made, so a \<^verbatim>\<open>TypeError\<close> of either field comes first.
\<close>

definition validateInput :: "request_body option \<Rightarrow> exn + (jsstring \<times> jsstring)" where
  "validateInput data =
     (case data of
        None \<Rightarrow> Inl (TranslationError (lit ''Request must be JSON'') 400 None)
      | Some d \<Rightarrow>
          (case trimmed (body_text d) of
             Inl e \<Rightarrow> Inl e
           | Inr text \<Rightarrow>
               (case trimmed (body_target_lang d) of
                  Inl e \<Rightarrow> Inl e
                | Inr targetLang \<Rightarrow>
                    if length text > MAX_TEXT_LENGTH then
                      Inl (TranslationError
                        (lit ''Text too long. Maximum '' @ show_nat MAX_TEXT_LENGTH
                           @ lit '' characters.'')
                        400
                        (Some (lit ''Text length: '' @ show_nat (length text)
                           @ lit '' characters'')))
                    else if text = [] then
                      Inl (TranslationError (lit ''Text cannot be empty'') 400 None)
                    else if targetLang = [] then
                      Inl (TranslationError (lit ''Target language cannot be empty'') 400 None)
                    else if \<not> target_lang_format targetLang then
                      Inl (TranslationError (lit ''Invalid target language format'') 400
                        (Some (lit ''Use only letters, spaces, and hyphens'')))
                    else Inr (text, targetLang))))"

subsection \<open>Language detection\<close>

definition languageMap :: "(jsstring \<times> jsstring) list" where
  "languageMap =
     [(lit ''eng'', lit ''EN''), (lit ''spa'', lit ''ES''), (lit ''fra'', lit ''FR''),
      (lit ''deu'', lit ''DE''), (lit ''ita'', lit ''IT''), (lit ''por'', lit ''PT''),
      (lit ''rus'', lit ''RU''), (lit ''jpn'', lit ''JA''), (lit ''kor'', lit ''KO''),
      (lit ''zho'', lit ''ZH''), (lit ''ara'', lit ''AR'')]"

text \<open>
  \<^verbatim>\<open>toUpperCase\<close> on the letters \<^verbatim>\<open>a\<close> to \<^verbatim>\<open>z\<close>. The detector returns ISO 639-3 codes,
  three lower-case ASCII letters, on which this is what JavaScript computes; the Unicode
  case mapping of other characters is not modelled.
\<close>

definition toUpperCase :: "jsstring \<Rightarrow> jsstring" where
  "toUpperCase s = map (\<lambda>c. if 0x61 \<le> c \<and> c \<le> 0x7A then c - 0x20 else c) s"

text \<open>
  \<open>franc\<close> is the language detector of the library of that name: a parameter. It
  returns a code or throws. The lookup \<^verbatim>\<open>languageMap[langCode]\<close> is a lookup among the
  eleven keys of the object literal; every value is a non-empty string, so \<^verbatim>\<open>||\<close> takes
  the upper-cased code exactly when the key is missing.
\<close>

definition getSourceLanguage :: "(jsstring \<Rightarrow> exn + jsstring) \<Rightarrow> jsstring \<Rightarrow> jsstring" where
  "getSourceLanguage franc text =
     (case franc text of
        Inl error \<Rightarrow> lit ''Unknown''
      | Inr langCode \<Rightarrow>
          (case map_of languageMap langCode of
             Some l \<Rightarrow> l
           | None \<Rightarrow> toUpperCase langCode))"

subsection \<open>The outside world\<close>

text \<open>The object that \<open>processTranslation\<close> stringifies into the cache.\<close>

record cache_data =
  source_language :: jsstring
  translated_text :: jsstring
  timestamp :: nat
  model :: jsstring

text \<open>
  A string held by redis, by what lines 195 to 202 do with it:
  \<^item> \<open>EmptyString\<close> is falsy: the test of line 195 fails, as for a missing key;
  \<^item> \<open>Unreadable e\<close>: \<^verbatim>\<open>JSON.parse\<close>, or a read of a field of its result (the text
    \<^verbatim>\<open>null\<close>), throws \<open>e\<close>;
  \<^item> \<open>Json d\<close>: \<^verbatim>\<open>JSON.stringify\<close> of the object \<open>d\<close>, which \<^verbatim>\<open>JSON.parse\<close> gives back.
\<close>

datatype redis_string = EmptyString | Unreadable exn | Json cache_data

text \<open>
  The request that \<open>callGroqApiWithBackoff\<close> posts. The temperature of the payload is
  the constant 0.2 and the content type is fixed: both are left out.
\<close>

record fetch_request =
  url :: jsstring
  authorization :: jsstring
  payload_model :: jsstring
  system_content :: jsstring
  user_content :: jsstring

text \<open>
  A choice of the completion: \<open>Content s\<close> when \<^verbatim>\<open>message.content\<close> is the string \<open>s\<close>;
  \<open>NoContent m\<close> when the choice has no message or its content is not a string, so that
  \<^verbatim>\<open>choices[0].message.content.trim()\<close> raises a \<^verbatim>\<open>TypeError\<close>, whose message is \<open>m\<close>.
\<close>

datatype choice = Content jsstring | NoContent jsstring

text \<open>
  The body of a response: \<^verbatim>\<open>response.json()\<close> rejects with an error, or resolves to
  \<^verbatim>\<open>data\<close>. \<open>Data None\<close> is a falsy \<^verbatim>\<open>data\<close> or one whose \<^verbatim>\<open>choices\<close> is missing or falsy;
  \<open>Data (Some cs)\<close> carries the array \<^verbatim>\<open>data.choices\<close>.
\<close>

datatype response_body = JsonRejected exn | Data "choice list option"

text \<open>What one call of \<^verbatim>\<open>fetch\<close> gives: a rejection, or a response.\<close>

datatype fetch_result =
    Rejected exn
  | Response (resp_ok: bool) (resp_status: nat) (resp_body: response_body)

datatype event =
    RedisGet jsstring
  | RedisSetEx jsstring nat redis_string
  | RedisPing
  | Fetch fetch_request
  | Sleep nat
  | ConsoleLog jsstring
  | ConsoleLogError jsstring exn

text \<open>
  The process and its environment during one request.
  \<^item> \<open>API_KEY\<close> is \<^verbatim>\<open>process.env.GROQ_API_KEY || ""\<close>.
  \<^item> \<open>redisClient\<close> is the global of that name: \<open>None\<close> when it is \<^verbatim>\<open>undefined\<close> or
    \<^verbatim>\<open>null\<close>, otherwise the store behind the client, a map from keys to a time-to-live in
    seconds and a string.
  \<^item> \<open>redis_get_fault\<close>, \<open>redis_setEx_fault\<close>, \<open>redis_ping_fault\<close>: the error a command
    of the client rejects with, if it does.
  \<^item> \<open>fetch w i\<close> is the outcome of the call of \<^verbatim>\<open>fetch\<close> in attempt \<open>i\<close> (from 0).
  \<^item> \<open>now\<close> is \<^verbatim>\<open>Date.now()\<close>.
  \<^item> \<open>rate_limit_exceeded w k\<close>: the limiter of \<^verbatim>\<open>express-rate-limit\<close> has counted more
    than one request of client \<open>k\<close> in the current window of one second.
\<close>

record world =
  API_KEY :: jsstring
  redisClient :: "(jsstring \<Rightarrow> (nat \<times> redis_string) option) option"
  redis_get_fault :: "exn option"
  redis_setEx_fault :: "exn option"
  redis_ping_fault :: "exn option"
  franc :: "jsstring \<Rightarrow> exn + jsstring"
  fetch :: "nat \<Rightarrow> fetch_result"
  now :: nat
  rate_limit_exceeded :: "jsstring \<Rightarrow> bool"

subsection \<open>The upstream client\<close>

text \<open>The body of the \<^verbatim>\<open>try\<close> of lines 146 to 170, after \<^verbatim>\<open>fetch\<close> has settled.\<close>

definition try_attempt :: "fetch_result \<Rightarrow> exn + jsstring" where
  "try_attempt r =
     (case r of
        Rejected e \<Rightarrow> Inl e
      | Response ok status body \<Rightarrow>
          if \<not> ok then Inl (Error (lit ''HTTP error! status: '' @ show_nat status))
          else
            (case body of
               JsonRejected e \<Rightarrow> Inl e
             | Data None \<Rightarrow> Inl (Error (lit ''API returned unparseable response structure.''))
             | Data (Some []) \<Rightarrow>
                 Inl (Error (lit ''API returned unparseable response structure.''))
             | Data (Some (c # cs)) \<Rightarrow>
                 (case c of
                    NoContent m \<Rightarrow> Inl (Error m)
                  | Content textContent \<Rightarrow>
                      (let translatedText = trim textContent in
                       if translatedText = [] then
                         Inl (Error (lit ''LLM returned empty translation text.''))
                       else Inr translatedText))))"

definition retry_line :: "nat \<Rightarrow> exn \<Rightarrow> nat \<Rightarrow> jsstring" where
  "retry_line attempt error currentDelay =
     lit ''API call failed (Attempt '' @ show_nat (attempt + 1) @ lit ''/''
       @ show_nat MAX_RETRIES @ lit ''). Error: '' @ message error
       @ lit ''. Retrying in '' @ show_nat currentDelay @ lit ''ms...''"

text \<open>
  The loop of lines 145 to 183, from a value of \<open>attempt\<close> and of \<open>currentDelay\<close> on.
  It returns what the function returns or throws, and the events in order.
\<close>

function attempts ::
  "(nat \<Rightarrow> fetch_result) \<Rightarrow> fetch_request \<Rightarrow> nat \<Rightarrow> nat \<Rightarrow> (exn + jsstring) \<times> event list"
where
  "attempts fetch_at req attempt currentDelay =
     (if attempt < MAX_RETRIES then
        (case try_attempt (fetch_at attempt) of
           Inr translatedText \<Rightarrow> (Inr translatedText, [Fetch req])
         | Inl error \<Rightarrow>
             if attempt < MAX_RETRIES - 1 then
               (case attempts fetch_at req (attempt + 1) (currentDelay * 2) of
                  (r, evs) \<Rightarrow>
                    (r, Fetch req # ConsoleLog (retry_line attempt error currentDelay)
                          # Sleep currentDelay # evs))
             else (Inl error, [Fetch req]))
      else (Inl (Error (lit ''Translation failed after maximum retries.'')), []))"
  by pat_completeness auto
termination
  by (relation "measure (\<lambda>(f, r, attempt, d). MAX_RETRIES - attempt)") auto

declare attempts.simps [simp del]

definition callGroqApiWithBackoff ::
  "world \<Rightarrow> jsstring \<Rightarrow> jsstring \<Rightarrow> (exn + jsstring) \<times> event list" where
  "callGroqApiWithBackoff w systemInstruction userPrompt =
     attempts (fetch w)
       \<lparr>url = API_URL, authorization = lit ''Bearer '' @ API_KEY w,
        payload_model = GROQ_MODEL, system_content = systemInstruction,
        user_content = userPrompt\<rparr>
       0 BASE_DELAY"

subsection \<open>The pipeline\<close>

record translation_result =
  res_source_language :: jsstring
  res_target_language :: jsstring
  res_translated_text :: jsstring
  res_status :: jsstring

definition cacheKey :: "jsstring \<Rightarrow> jsstring \<Rightarrow> jsstring" where
  "cacheKey textToTranslate targetLang =
     lit ''translation:'' @ textToTranslate @ lit ''|'' @ targetLang"

definition nl :: jsstring where
  "nl = [0x0A]"

definition systemInstruction :: "jsstring \<Rightarrow> jsstring \<Rightarrow> jsstring" where
  "systemInstruction sourceLanguageCode targetLang =
     nl @ lit ''        You are a professional, high-quality language translator. Your task is to translate the provided text ''
     @ nl @ lit ''        from '' @ sourceLanguageCode @ lit '' to '' @ targetLang @ lit ''. ''
     @ nl @ lit ''        If the text contains slang, abbreviations, or shorthand, make a best effort to translate its intended meaning. ''
     @ nl @ lit ''        If the text is truly incomprehensible or nonsensical, provide a literal translation followed by a brief, neutral note in parentheses indicating the uncertainty (e.g., 'Not clear' or 'Abbreviation'). ''
     @ nl @ lit ''        IMPORTANT: You MUST ONLY return the translated text and NOTHING else. ''
     @ nl @ lit ''        Do not include any introductory phrases, explanations, markdown formatting (like quotes or bolding), or punctuation beyond what is in the translation.''
     @ nl @ lit ''    ''"

text \<open>
  Lines 191 to 207, the cache check: the result to return on a hit, and the events.
  A rejected \<^verbatim>\<open>get\<close>, a string that does not parse and a failing read are caught and
  logged, and the function goes on as after a miss.
\<close>

definition check_cache ::
  "world \<Rightarrow> jsstring \<Rightarrow> jsstring \<Rightarrow> bool \<Rightarrow> translation_result option \<times> event list" where
  "check_cache w key targetLang forceRefresh =
     (if forceRefresh then (None, [])
      else
        (case redisClient w of
           None \<Rightarrow> (None, [])
         | Some store \<Rightarrow>
             (case redis_get_fault w of
                Some error \<Rightarrow>
                  (None, [RedisGet key, ConsoleLogError (lit ''Redis cache read error:'') error])
              | None \<Rightarrow>
                  (case store key of
                     None \<Rightarrow> (None, [RedisGet key])
                   | Some (ttl, EmptyString) \<Rightarrow> (None, [RedisGet key])
                   | Some (ttl, Unreadable error) \<Rightarrow>
                       (None,
                        [RedisGet key, ConsoleLogError (lit ''Redis cache read error:'') error])
                   | Some (ttl, Json cachedResult) \<Rightarrow>
                       (Some \<lparr>res_source_language = source_language cachedResult,
                              res_target_language = targetLang,
                              res_translated_text = translated_text cachedResult,
                              res_status = lit ''cached''\<rparr>,
                        [RedisGet key])))))"

text \<open>
  Lines 228 to 241, the cache write: the events and the world after it. A rejected
  \<^verbatim>\<open>setEx\<close> is caught and logged, and leaves the store as it was.
\<close>

definition cache_result ::
  "world \<Rightarrow> jsstring \<Rightarrow> jsstring \<Rightarrow> jsstring \<Rightarrow> event list \<times> world" where
  "cache_result w key sourceLanguageCode translatedText =
     (case redisClient w of
        None \<Rightarrow> ([], w)
      | Some store \<Rightarrow>
          (let cacheData = \<lparr>source_language = sourceLanguageCode,
                            translated_text = translatedText,
                            timestamp = now w, model = GROQ_MODEL\<rparr>
           in case redis_setEx_fault w of
                Some error \<Rightarrow>
                  ([RedisSetEx key CACHE_EXPIRY_SECONDS (Json cacheData),
                    ConsoleLogError (lit ''Redis cache write error:'') error], w)
              | None \<Rightarrow>
                  ([RedisSetEx key CACHE_EXPIRY_SECONDS (Json cacheData)],
                   w\<lparr>redisClient :=
                       Some (store(key \<mapsto> (CACHE_EXPIRY_SECONDS, Json cacheData)))\<rparr>)))"

text \<open>
  The first match of \<^verbatim>\<open>/status: (\d+)/\<close> in a string: its group, the longest run of
  digits after the leftmost \<^verbatim>\<open>status: \<close> that a digit follows.
\<close>

fun match_status :: "jsstring \<Rightarrow> jsstring option" where
  "match_status [] = None"
| "match_status (c # cs) =
     (if prefix (lit ''status: '') (c # cs) \<and> takeWhile is_digit (drop 8 (c # cs)) \<noteq> []
      then Some (takeWhile is_digit (drop 8 (c # cs)))
      else match_status cs)"

text \<open>Lines 245 to 266: what the \<^verbatim>\<open>catch\<close> throws for an error of the upstream client.\<close>

definition reclassify :: "exn \<Rightarrow> exn" where
  "reclassify error =
     (if js_includes (message error) (lit ''HTTP error'') then
        (case match_status (message error) of
           Some digits \<Rightarrow>
             TranslationError (lit ''Groq API Error ('' @ digits @ lit '')'')
               (parseInt digits) (Some (message error))
         | None \<Rightarrow>
             TranslationError (lit ''Groq API Error ('' @ show_nat 500 @ lit '')'')
               500 (Some (message error)))
      else if js_includes (message error) (lit ''empty translation'') then
        TranslationError
          (lit ''The model struggled to generate a translation. The input may be too short or ambiguous.'')
          400 (Some (message error))
      else
        TranslationError (lit ''An internal server error occurred'') 500
          (Some (message error)))"

text \<open>
  \<open>processTranslation\<close> returns what the function returns or throws, the events in
  order, and the world after the call. \<^verbatim>\<open>clientIp\<close> is a parameter the body never reads.
\<close>

definition processTranslation ::
  "world \<Rightarrow> jsstring \<Rightarrow> jsstring \<Rightarrow> jsstring \<Rightarrow> bool
     \<Rightarrow> (exn + translation_result) \<times> event list \<times> world" where
  "processTranslation w textToTranslate targetLang clientIp forceRefresh =
     (let sourceLanguageCode = getSourceLanguage (franc w) textToTranslate;
          key = cacheKey textToTranslate targetLang;
          statusType = (if forceRefresh then lit ''regenerated'' else lit ''generated'')
      in case check_cache w key targetLang forceRefresh of
           (Some cached, evs) \<Rightarrow> (Inr cached, evs, w)
         | (None, evs) \<Rightarrow>
             (case callGroqApiWithBackoff w
                     (systemInstruction sourceLanguageCode targetLang) textToTranslate of
                (Inl error, evs') \<Rightarrow> (Inl (reclassify error), evs @ evs', w)
              | (Inr translatedText, evs') \<Rightarrow>
                  (case cache_result w key sourceLanguageCode translatedText of
                     (evs'', w') \<Rightarrow>
                       (Inr \<lparr>res_source_language = sourceLanguageCode,
                             res_target_language = targetLang,
                             res_translated_text = translatedText,
                             res_status = statusType\<rparr>,
                        evs @ evs' @ evs'', w'))))"

subsection \<open>The routes\<close>

datatype json_value = JString jsstring | JNumber nat | JNull

type_synonym json_object = "(jsstring \<times> json_value) list"

text \<open>
  What a handler does with a request: it sends a JSON body with a status
  (\<^verbatim>\<open>res.status(n).json(o)\<close>; the status of a bare \<^verbatim>\<open>res.json(o)\<close> is 200), or it passes an
  error on with \<^verbatim>\<open>next(error)\<close>.
\<close>

datatype outcome = Responded nat json_object | Next exn

record request =
  req_body :: "request_body option"
  x_forwarded_for :: "jsstring option"
  ip :: jsstring


text \<open>\<^verbatim>\<open>req.headers['x-forwarded-for'] || req.ip\<close>, the key of the limiter.\<close>

definition keyGenerator :: "request \<Rightarrow> jsstring" where
  "keyGenerator req =
     (case x_forwarded_for req of
        None \<Rightarrow> ip req
      | Some h \<Rightarrow> if h = [] then ip req else h)"






text \<open>\<^verbatim>\<open>GET /api/health\<close>, lines 288 to 309.\<close>

definition api_health :: "world \<Rightarrow> outcome \<times> event list" where
  "api_health w =
     (let redisStatus =
            (case redisClient w of
               None \<Rightarrow> lit ''disconnected''
             | Some store \<Rightarrow>
                 (case redis_ping_fault w of
                    None \<Rightarrow> lit ''connected''
                  | Some error \<Rightarrow> lit ''disconnected''))
      in (Responded 200
            [(lit ''status'', JString (lit ''healthy'')),
             (lit ''redis'', JString redisStatus),
             (lit ''groq_api'',
                JString (if API_KEY w \<noteq> [] then lit ''configured'' else lit ''not_configured'')),
             (lit ''max_text_length'', JNumber MAX_TEXT_LENGTH),
             (lit ''rate_limit'', JString (lit ''1 second(s)'')),
             (lit ''timestamp'', JNumber (now w))],
          (case redisClient w of None \<Rightarrow> [] | Some store \<Rightarrow> [RedisPing])))"

subsection \<open>Reading a trace\<close>

text \<open>
  The delays slept, the requests fetched, the keys read from redis and the writes to
  redis (key, time-to-live, value), each in the order of the trace.
\<close>

fun sleeps :: "event list \<Rightarrow> nat list" where
  "sleeps [] = []"
| "sleeps (Sleep d # es) = d # sleeps es"
| "sleeps (e # es) = sleeps es"

fun fetches :: "event list \<Rightarrow> fetch_request list" where
  "fetches [] = []"
| "fetches (Fetch r # es) = r # fetches es"
| "fetches (e # es) = fetches es"

fun cache_reads :: "event list \<Rightarrow> jsstring list" where
  "cache_reads [] = []"
| "cache_reads (RedisGet k # es) = k # cache_reads es"
| "cache_reads (e # es) = cache_reads es"

fun cache_writes :: "event list \<Rightarrow> (jsstring \<times> nat \<times> redis_string) list" where
  "cache_writes [] = []"
| "cache_writes (RedisSetEx k ttl v # es) = (k, ttl, v) # cache_writes es"
| "cache_writes (e # es) = cache_writes es"

text \<open>The names of the fields of the JSON body a handler has sent.\<close>

fun body_fields :: "outcome \<Rightarrow> jsstring list" where
  "body_fields (Responded code obj) = map fst obj"
| "body_fields (Next error) = []"

fun status_sent :: "outcome \<Rightarrow> nat option" where
  "status_sent (Responded code obj) = Some code"
| "status_sent (Next error) = None"

subsection \<open>Notions of the specification\<close>

text \<open>
  The specification's condition for accepting a response, in its words: the response
  contains at least one choice whose message content is non-empty after trimming.
\<close>

definition has_nonempty_choice :: "fetch_result \<Rightarrow> bool" where
  "has_nonempty_choice r =
     (case r of
        Rejected e \<Rightarrow> False
      | Response ok status body \<Rightarrow>
          (case body of
             JsonRejected e \<Rightarrow> False
           | Data None \<Rightarrow> False
           | Data (Some cs) \<Rightarrow>
               list_ex (\<lambda>c. case c of Content s \<Rightarrow> trim s \<noteq> [] | NoContent m \<Rightarrow> False) cs))"

text \<open>
  A world that differs from \<open>w\<close> in the cache only: the store is reachable, no command
  fails, and it holds nothing, so that every read is a plain miss.
\<close>

definition healthy_miss :: "world \<Rightarrow> world" where
  "healthy_miss w =
     w\<lparr>redisClient := Some (\<lambda>k. None), redis_get_fault := None, redis_setEx_fault := None\<rparr>"

subsection \<open>Concrete inputs\<close>

definition upstream_ok :: fetch_result where
  "upstream_ok = Response True 200 (Data (Some [Content (lit ''Hola mundo'')]))"

definition upstream_503 :: fetch_result where
  "upstream_503 = Response False 503 (Data None)"

definition upstream_blank :: fetch_result where
  "upstream_blank = Response True 200 (Data (Some [Content (lit ''  '')]))"

text \<open>A response whose first choice is blank and whose second choice is a translation.\<close>

definition upstream_second_choice :: fetch_result where
  "upstream_second_choice =
     Response True 200 (Data (Some [Content [], Content (lit ''Hola mundo'')]))"

text \<open>
  A process with an API key and no redis client, whose upstream answers every call
  with a translation and whose limiter lets every request pass.
\<close>

definition example_world :: world where
  "example_world =
     \<lparr>API_KEY = lit ''gsk_example'', redisClient = None, redis_get_fault = None,
      redis_setEx_fault = None, redis_ping_fault = None,
      franc = (\<lambda>t. Inr (lit ''eng'')), fetch = (\<lambda>i. upstream_ok),
      now = 1700000000000, rate_limit_exceeded = (\<lambda>k. False)\<rparr>"

definition example_entry :: cache_data where
  "example_entry =
     \<lparr>source_language = lit ''FR'', translated_text = lit ''Hola'',
      timestamp = 1690000000000, model = GROQ_MODEL\<rparr>"

definition example_request :: request where
  "example_request =
     \<lparr>req_body = Some \<lparr>body_text = Str (lit ''Hello world''),
                        body_target_lang = Str (lit ''Spanish'')\<rparr>,
      x_forwarded_for = None, ip = lit ''203.0.113.7''\<rparr>"

section \<open>Properties\<close>

subsection \<open>The retry loop\<close>

lemma attempts_exhausted: "\<not> attempt < MAX_RETRIES \<Longrightarrow>
  attempts f req attempt d = (Inl (Error (lit ''Translation failed after maximum retries.'')), [])"
  by (subst attempts.simps) simp

lemma attempts_success: "attempt < MAX_RETRIES \<Longrightarrow> try_attempt (f attempt) = Inr t \<Longrightarrow>
  attempts f req attempt d = (Inr t, [Fetch req])"
  by (subst attempts.simps) simp

lemma attempts_last: "attempt < MAX_RETRIES \<Longrightarrow> \<not> attempt < MAX_RETRIES - 1 \<Longrightarrow> try_attempt (f attempt) = Inl e \<Longrightarrow>
  attempts f req attempt d = (Inl e, [Fetch req])"
  by (subst attempts.simps) simp

lemma attempts_retry: "attempt < MAX_RETRIES - 1 \<Longrightarrow> try_attempt (f attempt) = Inl e \<Longrightarrow>
  attempts f req attempt d =
    (fst (attempts f req (attempt + 1) (d * 2)),
     Fetch req # ConsoleLog (retry_line attempt e d) # Sleep d # snd (attempts f req (attempt + 1) (d * 2)))"
  by (subst attempts.simps) (simp add: case_prod_beta)


lemma attempts_fetches_pos:
  "attempt < MAX_RETRIES \<Longrightarrow> 0 < length (fetches (snd (attempts f req attempt d)))"
  by (subst attempts.simps) (simp split: sum.splits prod.splits)





lemma attempts_same_path:
  "(\<forall>i. isl (try_attempt (f i)) = isl (try_attempt (g i))) \<Longrightarrow>
   sleeps (snd (attempts f req attempt d)) = sleeps (snd (attempts g req' attempt d)) \<and>
   length (fetches (snd (attempts f req attempt d))) =
     length (fetches (snd (attempts g req' attempt d))) \<and>
   isl (fst (attempts f req attempt d)) = isl (fst (attempts g req' attempt d))"
proof (induction f req attempt d rule: attempts.induct)
  case (1 f req attempt d)
  show ?case
  proof (cases "attempt < MAX_RETRIES")
    case False
    then show ?thesis by (simp add: attempts_exhausted)
  next
    case lt: True
    show ?thesis
    proof (cases "try_attempt (f attempt)")
      case (Inr t)
      with "1.prems" obtain t' where "try_attempt (g attempt) = Inr t'"
        by (cases "try_attempt (g attempt)") (auto dest: spec[of _ attempt])
      with lt Inr show ?thesis by (simp add: attempts_success)
    next
      case (Inl e)
      with "1.prems" obtain e' where e': "try_attempt (g attempt) = Inl e'"
        by (cases "try_attempt (g attempt)") (auto dest: spec[of _ attempt])
      show ?thesis
      proof (cases "attempt < MAX_RETRIES - 1")
        case True
        with "1.IH"[OF lt Inl True "1.prems"] Inl e' show ?thesis
          by (simp add: attempts_retry)
      next
        case False
        with lt Inl e' show ?thesis by (simp add: attempts_last)
      qed
    qed
  qed
qed

lemma attempts_continue:
  "attempt \<le> k \<Longrightarrow> k < MAX_RETRIES - 1 \<Longrightarrow>
   (\<forall>i. attempt \<le> i \<and> i \<le> k \<longrightarrow> isl (try_attempt (f i))) \<Longrightarrow>
   k - attempt + 2 \<le> length (fetches (snd (attempts f req attempt d)))"
proof (induction f req attempt d rule: attempts.induct)
  case (1 f req attempt d)
  from "1.prems" obtain e where e: "try_attempt (f attempt) = Inl e"
    by (cases "try_attempt (f attempt)") auto
  from "1.prems" have a1: "attempt < MAX_RETRIES" and a2: "attempt < MAX_RETRIES - 1"
    by simp_all
  show ?case
  proof (cases "attempt = k")
    case True
    have "0 < length (fetches (snd (attempts f req (attempt + 1) (d * 2))))"
      using a2 attempts_fetches_pos[of "attempt + 1" f req "d * 2"] by simp
    with True a2 e show ?thesis by (simp add: attempts_retry Suc_le_eq)
  next
    case False
    with "1.prems" have lt: "attempt + 1 \<le> k" by simp
    have "k - (attempt + 1) + 2 \<le> length (fetches (snd (attempts f req (attempt + 1) (d * 2))))"
      using "1.IH"[OF a1 e a2 lt "1.prems"(2)] "1.prems"(3) by simp
    with lt a2 e show ?thesis by (simp add: attempts_retry)
  qed
qed


text \<open>What the pipeline returns when the cache check yields no entry.\<close>

lemma processTranslation_no_hit:
  "fst (check_cache w (cacheKey t l) l fr) = None \<Longrightarrow>
   fst (processTranslation w t l clientIp fr) =
     (case fst (callGroqApiWithBackoff w (systemInstruction (getSourceLanguage (franc w) t) l) t) of
        Inl error \<Rightarrow> Inl (reclassify error)
      | Inr translatedText \<Rightarrow>
          Inr \<lparr>res_source_language = getSourceLanguage (franc w) t, res_target_language = l,
               res_translated_text = translatedText,
               res_status = (if fr then lit ''regenerated'' else lit ''generated'')\<rparr>)"
  by (cases "check_cache w (cacheKey t l) l fr")
     (auto simp: processTranslation_def Let_def split: prod.splits sum.splits)


lemma try_503: "try_attempt upstream_503 = Inl (Error (lit ''HTTP error! status: 503''))"
  by (simp add: try_attempt_def upstream_503_def lit_def)

lemma try_ok: "try_attempt upstream_ok = Inr (lit ''Hola mundo'')"
  by (simp add: try_attempt_def upstream_ok_def lit_def trim_def is_white_space_def)


subsection \<open>Acceptance of a response\<close>

lemma try_attempt_Inr_iff:
  "try_attempt r = Inr t \<longleftrightarrow>
     (\<exists>status s cs. r = Response True status (Data (Some (Content s # cs))) \<and> trim s \<noteq> [] \<and> t = trim s)"
  by (auto simp: try_attempt_def Let_def
      split: fetch_result.splits response_body.splits option.splits list.splits choice.splits if_splits)

lemma try_attempt_has_choice: "try_attempt r = Inr t \<Longrightarrow> has_nonempty_choice r"
  by (auto simp: try_attempt_Inr_iff has_nonempty_choice_def)

text \<open>
  Claim C5, as stated, fails: acceptance looks at the first choice only. A response that
  is successful and whose second choice holds a translation, after a first choice with
  empty content, contains a choice with non-empty content and is rejected with the
  empty-translation error.
\<close>

theorem upstream_second_choice_rejected:
  "has_nonempty_choice upstream_second_choice \<and>
   try_attempt upstream_second_choice = Inl (Error (lit ''LLM returned empty translation text.''))"
  by (simp add: has_nonempty_choice_def upstream_second_choice_def try_attempt_def trim_def
      lit_def is_white_space_def)

text \<open>
  Claim C5, amended. An attempt is accepted exactly when the response has a success
  status, its body parses, and the content of its first choice is a string that is not
  empty after trimming; the trimmed string is the result. An accepted response
  contains a choice with non-empty content (the converse is what fails). Which error
  an attempt fails with makes no difference to the retries: two upstreams whose
  attempts fail and succeed at the same places go through the same sleeps and the same
  number of attempts, and end alike in success or failure. No failure is terminal:
  after failures of the attempts up to number \<open>k\<close>, counted from 0 and short of the
  last, the next attempt is made.
\<close>

theorem upstream_acceptance:
  "(try_attempt r = Inr t \<longleftrightarrow>
      (\<exists>status s cs. r = Response True status (Data (Some (Content s # cs)))
         \<and> trim s \<noteq> [] \<and> t = trim s))
   \<and> (try_attempt r = Inr t \<longrightarrow> has_nonempty_choice r)
   \<and> ((\<forall>i. isl (try_attempt (fetch w i)) = isl (try_attempt (fetch w' i))) \<longrightarrow>
        sleeps (snd (callGroqApiWithBackoff w s u)) = sleeps (snd (callGroqApiWithBackoff w' s u))
        \<and> length (fetches (snd (callGroqApiWithBackoff w s u))) =
            length (fetches (snd (callGroqApiWithBackoff w' s u)))
        \<and> isl (fst (callGroqApiWithBackoff w s u)) = isl (fst (callGroqApiWithBackoff w' s u)))
   \<and> (k < 4 \<and> (\<forall>i\<le>k. isl (try_attempt (fetch w i))) \<longrightarrow>
        k + 2 \<le> length (fetches (snd (callGroqApiWithBackoff w s u))))"
proof -
  let ?req = "\<lambda>w. \<lparr>url = API_URL, authorization = lit ''Bearer '' @ API_KEY w,
        payload_model = GROQ_MODEL, system_content = s, user_content = u\<rparr>"
  have same: "sleeps (snd (callGroqApiWithBackoff w s u)) = sleeps (snd (callGroqApiWithBackoff w' s u))
        \<and> length (fetches (snd (callGroqApiWithBackoff w s u))) =
            length (fetches (snd (callGroqApiWithBackoff w' s u)))
        \<and> isl (fst (callGroqApiWithBackoff w s u)) = isl (fst (callGroqApiWithBackoff w' s u))"
    if h: "\<forall>i. isl (try_attempt (fetch w i)) = isl (try_attempt (fetch w' i))"
    using attempts_same_path[OF h, of "?req w" 0 BASE_DELAY "?req w'"]
    by (simp add: callGroqApiWithBackoff_def)
  have cont: "k + 2 \<le> length (fetches (snd (callGroqApiWithBackoff w s u)))"
    if "k < 4" "\<forall>i\<le>k. isl (try_attempt (fetch w i))"
    using attempts_continue[of 0 k "fetch w" "?req w" BASE_DELAY] that
    by (simp add: callGroqApiWithBackoff_def MAX_RETRIES_def)
  show ?thesis
    using same cont try_attempt_Inr_iff[of r t] try_attempt_has_choice[of r t] by blast
qed

lemma try_blank: "try_attempt upstream_blank = Inl (Error (lit ''LLM returned empty translation text.''))"
  by (simp add: try_attempt_def upstream_blank_def lit_def trim_def is_white_space_def)

text \<open>
  The theorem at an accepted response, and at two upstreams that fail twice before they
  answer, one with blank translations and one with status 503.
\<close>

theorem upstream_acceptance_witness:
  "try_attempt upstream_ok = Inr (lit ''Hola mundo'')
   \<and> has_nonempty_choice upstream_ok
   \<and> sleeps (snd (callGroqApiWithBackoff
         (example_world\<lparr>fetch := \<lambda>i. if i < 2 then upstream_blank else upstream_ok\<rparr>) [] [])) =
       sleeps (snd (callGroqApiWithBackoff
         (example_world\<lparr>fetch := \<lambda>i. if i < 2 then upstream_503 else upstream_ok\<rparr>) [] []))
   \<and> 3 \<le> length (fetches (snd (callGroqApiWithBackoff
         (example_world\<lparr>fetch := \<lambda>i. if i < 2 then upstream_blank else upstream_ok\<rparr>) [] [])))"
proof -
  let ?wA = "example_world\<lparr>fetch := \<lambda>i. if i < 2 then upstream_blank else upstream_ok\<rparr>"
  let ?wB = "example_world\<lparr>fetch := \<lambda>i. if i < 2 then upstream_503 else upstream_ok\<rparr>"
  note T = upstream_acceptance[of upstream_ok "lit ''Hola mundo''" ?wA ?wB "[]" "[]" 1]
  have h1: "\<exists>status s cs. upstream_ok = Response True status (Data (Some (Content s # cs)))
         \<and> trim s \<noteq> [] \<and> lit ''Hola mundo'' = trim s"
    by (simp add: upstream_ok_def trim_def lit_def is_white_space_def)
  have h2: "\<forall>i. isl (try_attempt (fetch ?wA i)) = isl (try_attempt (fetch ?wB i))"
    by (simp add: try_503 try_blank try_ok)
  have h3: "(1::nat) < 4 \<and> (\<forall>i\<le>1. isl (try_attempt (fetch ?wA i)))"
    by (simp add: try_blank)
  from T h1 have c1: "try_attempt upstream_ok = Inr (lit ''Hola mundo'')" by blast
  with T have c2: "has_nonempty_choice upstream_ok" by blast
  from T h2 have c3: "sleeps (snd (callGroqApiWithBackoff ?wA [] [])) =
       sleeps (snd (callGroqApiWithBackoff ?wB [] []))" by blast
  from T h3 have c4: "1 + 2 \<le> length (fetches (snd (callGroqApiWithBackoff ?wA [] [])))" by blast
  from c1 c2 c3 c4 show ?thesis by simp
qed

subsection \<open>The cache key\<close>







lemma trim_lit_a: "trim (lit ''a'') = lit ''a''" 
  by (simp add: trim_def lit_def is_white_space_def)




subsection \<open>Validation\<close>

lemma show_nat_2000: "show_nat 2000 = lit ''2000''"
  by (simp add: lit_def)

lemma show_nat_2001: "show_nat 2001 = lit ''2001''"
  by (simp add: lit_def)

text \<open>
  When the target language of the body is a string or falsy, a text of 2001 code units
  after trimming is rejected with status 400 and the length in the details, a text of
  2000 is not rejected for its length, and a text that trims to nothing is rejected as
  empty.
\<close>

lemma validateInput_text_too_long:
  assumes "trimmed (body_text d) = Inr text" "trimmed (body_target_lang d) = Inr targetLang"
    "length text = 2001"
  shows "validateInput (Some d) =
           Inl (TranslationError (lit ''Text too long. Maximum 2000 characters.'') 400
                  (Some (lit ''Text length: 2001 characters'')))"
  using assms
  by (simp add: validateInput_def MAX_TEXT_LENGTH_def show_nat_2000 show_nat_2001 lit_def
      del: show_nat.simps)

lemma trimmed_Inl: "trimmed v = Inl e \<Longrightarrow> \<exists>m. e = Error m"
  by (auto simp: trimmed_def split: json_field.splits)

lemma validateInput_length_2000:
  assumes "trimmed (body_text d) = Inr text" "length text = 2000"
  shows "validateInput (Some d) \<noteq>
           Inl (TranslationError (lit ''Text too long. Maximum 2000 characters.'') 400 x)"
  using assms
  by (cases "trimmed (body_target_lang d)")
     (auto simp: validateInput_def MAX_TEXT_LENGTH_def lit_def dest: trimmed_Inl)

lemma validateInput_text_empty:
  assumes "trimmed (body_text d) = Inr []" "trimmed (body_target_lang d) = Inr targetLang"
  shows "validateInput (Some d) = Inl (TranslationError (lit ''Text cannot be empty'') 400 None)"
  using assms by (simp add: validateInput_def MAX_TEXT_LENGTH_def)

lemma trim_replicate_a: "trim (replicate n 0x61) = replicate n 0x61"
  by (simp add: trim_def is_white_space_def)

text \<open>
  Claim C7 on the code. The body \<^verbatim>\<open>{"text": "aaa...a", "target_lang": 123}\<close>, with 2001
  letters, has a text that trims to 2001 characters. Line 72 calls \<^verbatim>\<open>trim\<close> on the number
  before line 74 looks at the length, and \<open>validateInput\<close> throws the \<^verbatim>\<open>TypeError\<close>
  instead of the error for a text that is too long.
\<close>

theorem validateInput_too_long_type_error:
  "trimmed (Str (replicate 2001 0x61)) = Inr (replicate 2001 0x61)
   \<and> length (replicate 2001 (0x61 :: jschar)) = 2001
   \<and> validateInput (Some \<lparr>body_text = Str (replicate 2001 0x61), body_target_lang = Truthy m\<rparr>) =
       Inl (Error m)"
  by (simp add: validateInput_def trimmed_def trim_replicate_a)

text \<open>
  Claim C10 on the code. The body \<^verbatim>\<open>{"text": "   ", "target_lang": 123}\<close> has a text that
  trims to the empty string, and \<open>validateInput\<close> throws the \<^verbatim>\<open>TypeError\<close> of line 72
  instead of the error for an empty text.
\<close>

theorem validateInput_empty_type_error:
  "trimmed (Str (lit ''   '')) = Inr []
   \<and> validateInput (Some \<lparr>body_text = Str (lit ''   ''), body_target_lang = Truthy m\<rparr>) =
       Inl (Error m)"
  by (simp add: validateInput_def trimmed_def trim_def lit_def is_white_space_def)

subsection \<open>The pipeline and the cache\<close>

lemma cache_reads_append: "cache_reads (xs @ ys) = cache_reads xs @ cache_reads ys"
  by (induction xs rule: cache_reads.induct) simp_all

lemma cache_writes_append: "cache_writes (xs @ ys) = cache_writes xs @ cache_writes ys"
  by (induction xs rule: cache_writes.induct) simp_all

lemma fetches_append: "fetches (xs @ ys) = fetches xs @ fetches ys"
  by (induction xs rule: fetches.induct) simp_all

lemma attempts_no_cache:
  "cache_reads (snd (attempts f req attempt d)) = [] \<and>
   cache_writes (snd (attempts f req attempt d)) = []"
proof (induction f req attempt d rule: attempts.induct)
  case (1 f req attempt d)
  show ?case
  proof (cases "attempt < MAX_RETRIES")
    case False
    then show ?thesis by (simp add: attempts_exhausted)
  next
    case lt: True
    show ?thesis
    proof (cases "try_attempt (f attempt)")
      case (Inr t)
      with lt show ?thesis by (simp add: attempts_success)
    next
      case (Inl e)
      show ?thesis
      proof (cases "attempt < MAX_RETRIES - 1")
        case True
        with 1[OF lt Inl True] Inl show ?thesis by (simp add: attempts_retry)
      next
        case False
        with lt Inl show ?thesis by (simp add: attempts_last)
      qed
    qed
  qed
qed

lemma callGroq_no_cache:
  "cache_reads (snd (callGroqApiWithBackoff w s u)) = []"
  "cache_writes (snd (callGroqApiWithBackoff w s u)) = []"
  by (simp_all add: callGroqApiWithBackoff_def attempts_no_cache)

lemma callGroq_healthy_miss [simp]:
  "callGroqApiWithBackoff (healthy_miss w) s u = callGroqApiWithBackoff w s u"
  by (simp add: callGroqApiWithBackoff_def healthy_miss_def)

lemma franc_healthy_miss [simp]: "franc (healthy_miss w) = franc w"
  by (simp add: healthy_miss_def)

lemma callGroq_setEx_fault [simp]:
  "callGroqApiWithBackoff (w\<lparr>redis_setEx_fault := x\<rparr>) s u = callGroqApiWithBackoff w s u"
  by (simp add: callGroqApiWithBackoff_def)

lemma check_cache_events:
  "cache_writes (snd (check_cache w key l fr)) = [] \<and> fetches (snd (check_cache w key l fr)) = []"
  by (simp add: check_cache_def split: option.splits prod.splits redis_string.splits)

lemma check_cache_force: "check_cache w key l True = (None, [])"
  by (simp add: check_cache_def)

lemma check_cache_hit:
  "redisClient w = Some store \<Longrightarrow> redis_get_fault w = None \<Longrightarrow> store key = Some (ttl, Json entry) \<Longrightarrow>
   check_cache w key l False =
     (Some \<lparr>res_source_language = source_language entry, res_target_language = l,
            res_translated_text = translated_text entry, res_status = lit ''cached''\<rparr>,
      [RedisGet key])"
  by (simp add: check_cache_def)

lemma check_cache_failure:
  "redisClient w = None \<or> redis_get_fault w \<noteq> None \<or>
     (\<exists>store ttl e. redisClient w = Some store \<and> store key = Some (ttl, Unreadable e)) \<Longrightarrow>
   fst (check_cache w key l fr) = None"
  by (auto simp: check_cache_def split: option.splits)

lemma check_cache_healthy_miss: "fst (check_cache (healthy_miss w) key l fr) = None"
  by (simp add: check_cache_def healthy_miss_def)

lemma source_language_example: "getSourceLanguage (franc example_world) t = lit ''EN''"
  by (simp add: getSourceLanguage_def example_world_def languageMap_def lit_def)

lemma callGroq_first_ok:
  "fetch w 0 = upstream_ok \<Longrightarrow> fst (callGroqApiWithBackoff w s u) = Inr (lit ''Hola mundo'')"
  by (simp add: callGroqApiWithBackoff_def attempts_success MAX_RETRIES_def try_ok)

text \<open>
  Claim C3. Without force-refresh, when the client is there, the read does not fail
  and the store holds an entry under the key of the request, \<open>processTranslation\<close>
  returns the status \<^verbatim>\<open>cached\<close> with the translated text and the source language of
  the entry and the target language of the request. The language that the detector has
  just computed appears nowhere in the result. The only event is the read: there is no
  fetch and no cache write, and the world is as before.
\<close>

theorem cache_hit_returns_entry:
  assumes "redisClient w = Some store" and "redis_get_fault w = None"
    and "store (cacheKey textToTranslate targetLang) = Some (ttl, Json entry)"
  shows "processTranslation w textToTranslate targetLang clientIp False =
           (Inr \<lparr>res_source_language = source_language entry,
                 res_target_language = targetLang,
                 res_translated_text = translated_text entry,
                 res_status = lit ''cached''\<rparr>,
            [RedisGet (cacheKey textToTranslate targetLang)], w)
         \<and> fetches (fst (snd (processTranslation w textToTranslate targetLang clientIp False))) = []
         \<and> cache_writes (fst (snd (processTranslation w textToTranslate targetLang clientIp False))) = []"
  using assms by (simp add: processTranslation_def Let_def check_cache_hit)

text \<open>
  The theorem at a store that holds a French entry for a text the detector takes for
  English: the result says \<^verbatim>\<open>FR\<close>.
\<close>

theorem cache_hit_returns_entry_witness:
  "processTranslation
     (example_world\<lparr>redisClient :=
        Some [cacheKey (lit ''Hello'') (lit ''Spanish'') \<mapsto> (604800, Json example_entry)]\<rparr>)
     (lit ''Hello'') (lit ''Spanish'') (lit ''203.0.113.7'') False =
   (Inr \<lparr>res_source_language = lit ''FR'', res_target_language = lit ''Spanish'',
         res_translated_text = lit ''Hola'', res_status = lit ''cached''\<rparr>,
    [RedisGet (cacheKey (lit ''Hello'') (lit ''Spanish''))],
    example_world\<lparr>redisClient :=
        Some [cacheKey (lit ''Hello'') (lit ''Spanish'') \<mapsto> (604800, Json example_entry)]\<rparr>)
   \<and> getSourceLanguage (franc example_world) (lit ''Hello'') = lit ''EN''"
proof -
  let ?store = "[cacheKey (lit ''Hello'') (lit ''Spanish'') \<mapsto> (604800::nat, Json example_entry)]"
  let ?w = "example_world\<lparr>redisClient := Some ?store\<rparr>"
  have h1: "redisClient ?w = Some ?store" by simp
  have h2: "redis_get_fault ?w = None" by (simp add: example_world_def)
  have h3: "?store (cacheKey (lit ''Hello'') (lit ''Spanish'')) = Some (604800, Json example_entry)"
    by simp
  from cache_hit_returns_entry[OF h1 h2 h3, of "lit ''203.0.113.7''"] source_language_example
  show ?thesis by (simp add: example_entry_def)
qed

text \<open>
  Claim C4. When there is no redis client, when the read fails, or when the stored
  string cannot be read, \<open>processTranslation\<close> returns (or throws) exactly what it
  does in a world whose cache works and holds nothing. A failing write never changes
  what is returned. What is returned after a miss is the upstream result alone: on
  upstream success a result with status \<^verbatim>\<open>generated\<close> (\<^verbatim>\<open>regenerated\<close> under
  force-refresh), and otherwise the re-classified upstream error, never an error of the
  cache.
\<close>

theorem cache_failures_not_surfaced:
  "(redisClient w = None \<or> redis_get_fault w \<noteq> None \<or>
      (\<exists>store ttl e. redisClient w = Some store
          \<and> store (cacheKey textToTranslate targetLang) = Some (ttl, Unreadable e))
     \<longrightarrow> fst (processTranslation w textToTranslate targetLang clientIp forceRefresh) =
         fst (processTranslation (healthy_miss w) textToTranslate targetLang clientIp forceRefresh))
   \<and> fst (processTranslation (w\<lparr>redis_setEx_fault := Some e'\<rparr>) textToTranslate targetLang clientIp forceRefresh) =
      fst (processTranslation (w\<lparr>redis_setEx_fault := None\<rparr>) textToTranslate targetLang clientIp forceRefresh)
   \<and> fst (processTranslation (healthy_miss w) textToTranslate targetLang clientIp forceRefresh) =
       (case fst (callGroqApiWithBackoff w
                    (systemInstruction (getSourceLanguage (franc w) textToTranslate) targetLang) textToTranslate) of
          Inl error \<Rightarrow> Inl (reclassify error)
        | Inr translatedText \<Rightarrow>
            Inr \<lparr>res_source_language = getSourceLanguage (franc w) textToTranslate,
                 res_target_language = targetLang,
                 res_translated_text = translatedText,
                 res_status = (if forceRefresh then lit ''regenerated'' else lit ''generated'')\<rparr>)"
proof -
  let ?key = "cacheKey textToTranslate targetLang"
  have miss: "fst (processTranslation (healthy_miss w) textToTranslate targetLang clientIp forceRefresh) =
       (case fst (callGroqApiWithBackoff w
                    (systemInstruction (getSourceLanguage (franc w) textToTranslate) targetLang) textToTranslate) of
          Inl error \<Rightarrow> Inl (reclassify error)
        | Inr translatedText \<Rightarrow>
            Inr \<lparr>res_source_language = getSourceLanguage (franc w) textToTranslate,
                 res_target_language = targetLang,
                 res_translated_text = translatedText,
                 res_status = (if forceRefresh then lit ''regenerated'' else lit ''generated'')\<rparr>)"
    by (simp add: processTranslation_no_hit[OF check_cache_healthy_miss] split: sum.splits)
  have fail: "fst (processTranslation w textToTranslate targetLang clientIp forceRefresh) =
         fst (processTranslation (healthy_miss w) textToTranslate targetLang clientIp forceRefresh)"
    if "redisClient w = None \<or> redis_get_fault w \<noteq> None \<or>
      (\<exists>store ttl e. redisClient w = Some store \<and> store ?key = Some (ttl, Unreadable e))"
    by (simp add: processTranslation_no_hit[OF check_cache_failure[OF that]] miss)
  have chk: "check_cache (w\<lparr>redis_setEx_fault := x\<rparr>) ?key targetLang forceRefresh =
             check_cache w ?key targetLang forceRefresh" for x
    by (simp add: check_cache_def split: option.splits)
  have wr: "fst (processTranslation (w\<lparr>redis_setEx_fault := x\<rparr>) textToTranslate targetLang clientIp forceRefresh) =
            fst (processTranslation w textToTranslate targetLang clientIp forceRefresh)" for x
    by (auto simp: processTranslation_def Let_def chk split: prod.splits sum.splits option.splits)
  from miss fail wr[of "Some e'"] wr[of None] show ?thesis by simp
qed

lemma example_miss_result:
  assumes "fetch w 0 = upstream_ok" and "franc w = franc example_world"
  shows "(case fst (callGroqApiWithBackoff w
                    (systemInstruction (getSourceLanguage (franc w) textToTranslate) targetLang)
                    textToTranslate) of
            Inl error \<Rightarrow> Inl (reclassify error)
          | Inr translatedText \<Rightarrow>
              Inr \<lparr>res_source_language = getSourceLanguage (franc w) textToTranslate,
                   res_target_language = targetLang,
                   res_translated_text = translatedText,
                   res_status = status\<rparr>) =
         Inr \<lparr>res_source_language = lit ''EN'', res_target_language = targetLang,
              res_translated_text = lit ''Hola mundo'', res_status = status\<rparr>"
  using assms by (simp add: callGroq_first_ok source_language_example)

text \<open>
  The theorem at a process without redis, at one whose read fails although the store
  holds an entry, and at one whose write fails: each returns the generated result.
\<close>

theorem cache_failures_not_surfaced_witness:
  "fst (processTranslation example_world (lit ''Hello world'') (lit ''Spanish'') [] False) =
     Inr \<lparr>res_source_language = lit ''EN'', res_target_language = lit ''Spanish'',
          res_translated_text = lit ''Hola mundo'', res_status = lit ''generated''\<rparr>
   \<and> fst (processTranslation
           (example_world\<lparr>redisClient := Some [cacheKey (lit ''Hello world'') (lit ''Spanish'')
                                                 \<mapsto> (604800, Json example_entry)],
                          redis_get_fault := Some (Error (lit ''Connection is closed.''))\<rparr>)
           (lit ''Hello world'') (lit ''Spanish'') [] False) =
     Inr \<lparr>res_source_language = lit ''EN'', res_target_language = lit ''Spanish'',
          res_translated_text = lit ''Hola mundo'', res_status = lit ''generated''\<rparr>
   \<and> fst (processTranslation
           ((healthy_miss example_world)\<lparr>redis_setEx_fault := Some (Error (lit ''Connection is closed.''))\<rparr>)
           (lit ''Hello world'') (lit ''Spanish'') [] False) =
     Inr \<lparr>res_source_language = lit ''EN'', res_target_language = lit ''Spanish'',
          res_translated_text = lit ''Hola mundo'', res_status = lit ''generated''\<rparr>"
proof -
  let ?t = "lit ''Hello world''" and ?l = "lit ''Spanish''"
  let ?e = "Error (lit ''Connection is closed.'')"
  let ?w2 = "example_world\<lparr>redisClient := Some [cacheKey ?t ?l \<mapsto> (604800, Json example_entry)],
                          redis_get_fault := Some ?e\<rparr>"
  let ?w3 = "healthy_miss example_world"
  let ?R = "Inr \<lparr>res_source_language = lit ''EN'', res_target_language = ?l,
          res_translated_text = lit ''Hola mundo'', res_status = lit ''generated''\<rparr>"
  have f: "fetch example_world 0 = upstream_ok" "fetch ?w2 0 = upstream_ok" "fetch ?w3 0 = upstream_ok"
    "franc ?w2 = franc example_world" "franc ?w3 = franc example_world"
    by (simp_all add: example_world_def healthy_miss_def)
  have h1: "redisClient example_world = None" by (simp add: example_world_def)
  have h2: "redis_get_fault ?w2 \<noteq> None" by simp
  have m3: "?w3\<lparr>redis_setEx_fault := None\<rparr> = ?w3" "healthy_miss ?w3 = ?w3"
    by (simp_all add: healthy_miss_def)
  note T1 = cache_failures_not_surfaced[of example_world ?t ?l "[]" False ?e]
  note T2 = cache_failures_not_surfaced[of ?w2 ?t ?l "[]" False ?e]
  note T3 = cache_failures_not_surfaced[of ?w3 ?t ?l "[]" False ?e]
  from T1 h1 have a1: "fst (processTranslation example_world ?t ?l [] False) =
      fst (processTranslation (healthy_miss example_world) ?t ?l [] False)" by blast
  from T1 have b1: "fst (processTranslation (healthy_miss example_world) ?t ?l [] False) = ?R"
    unfolding example_miss_result[OF f(1) refl] by simp
  from T2 h2 have a2: "fst (processTranslation ?w2 ?t ?l [] False) =
      fst (processTranslation (healthy_miss ?w2) ?t ?l [] False)" by blast
  from T2 have b2: "fst (processTranslation (healthy_miss ?w2) ?t ?l [] False) = ?R"
    unfolding example_miss_result[OF f(2,4)] by simp
  from T3 have a3: "fst (processTranslation (?w3\<lparr>redis_setEx_fault := Some ?e\<rparr>) ?t ?l [] False) =
      fst (processTranslation (?w3\<lparr>redis_setEx_fault := None\<rparr>) ?t ?l [] False)" by blast
  from T3 have b3: "fst (processTranslation (healthy_miss ?w3) ?t ?l [] False) = ?R"
    unfolding example_miss_result[OF f(3,5)] by simp
  from a1 b1 have c1: "fst (processTranslation example_world ?t ?l [] False) = ?R" by simp
  from a2 b2 have c2: "fst (processTranslation ?w2 ?t ?l [] False) = ?R" by simp
  from a3 b3 m3 have c3: "fst (processTranslation (?w3\<lparr>redis_setEx_fault := Some ?e\<rparr>) ?t ?l [] False) = ?R"
    by simp
  from c1 c2 c3 show ?thesis by simp
qed

lemma processTranslation_success:
  assumes "check_cache w (cacheKey t l) l fr = (None, evs)"
    and "callGroqApiWithBackoff w (systemInstruction (getSourceLanguage (franc w) t) l) t = (Inr tt, evs')"
  shows "processTranslation w t l clientIp fr =
           (Inr \<lparr>res_source_language = getSourceLanguage (franc w) t, res_target_language = l,
                 res_translated_text = tt,
                 res_status = (if fr then lit ''regenerated'' else lit ''generated'')\<rparr>,
            evs @ evs' @ fst (cache_result w (cacheKey t l) (getSourceLanguage (franc w) t) tt),
            snd (cache_result w (cacheKey t l) (getSourceLanguage (franc w) t) tt))"
  using assms by (simp add: processTranslation_def Let_def split: prod.splits)

lemma processTranslation_failure:
  assumes "check_cache w (cacheKey t l) l fr = (None, evs)"
    and "callGroqApiWithBackoff w (systemInstruction (getSourceLanguage (franc w) t) l) t = (Inl e, evs')"
  shows "processTranslation w t l clientIp fr = (Inl (reclassify e), evs @ evs', w)"
  using assms by (simp add: processTranslation_def Let_def)

lemma cache_result_writes:
  "cache_writes (fst (cache_result w key src tt)) =
     (case redisClient w of
        None \<Rightarrow> []
      | Some store \<Rightarrow>
          [(key, 604800, Json \<lparr>source_language = src, translated_text = tt,
                               timestamp = now w, model = GROQ_MODEL\<rparr>)])"
  by (simp add: cache_result_def Let_def CACHE_EXPIRY_SECONDS_def split: option.splits)

lemma cache_result_reads: "cache_reads (fst (cache_result w key src tt)) = []"
  by (simp add: cache_result_def Let_def split: option.splits)

lemma cache_result_store:
  "redisClient w = Some store \<Longrightarrow> redis_setEx_fault w = None \<Longrightarrow>
   redisClient (snd (cache_result w key src tt)) =
     Some (store(key \<mapsto> (604800, Json \<lparr>source_language = src, translated_text = tt,
                               timestamp = now w, model = GROQ_MODEL\<rparr>)))"
  by (simp add: cache_result_def Let_def CACHE_EXPIRY_SECONDS_def)

text \<open>
  Claim C2, amended. Under force-refresh the pipeline never reads the cache, and a
  result it returns has the status \<^verbatim>\<open>regenerated\<close>, never \<^verbatim>\<open>cached\<close> or \<^verbatim>\<open>generated\<close>. On
  upstream success it returns the fresh translation and, when a redis client is there,
  issues exactly one write: the fresh entry under the key of the request with a
  time-to-live of 604800 seconds, seven days. The store holds that entry afterwards
  unless the write fails. Without a client nothing is written.
\<close>

theorem force_refresh_pipeline:
  "cache_reads (fst (snd (processTranslation w textToTranslate targetLang clientIp True))) = []
   \<and> (fst (processTranslation w textToTranslate targetLang clientIp True) = Inr r \<longrightarrow>
        res_status r = lit ''regenerated'' \<and> res_status r \<noteq> lit ''cached''
        \<and> res_status r \<noteq> lit ''generated'')
   \<and> (fst (callGroqApiWithBackoff w
              (systemInstruction (getSourceLanguage (franc w) textToTranslate) targetLang)
              textToTranslate) = Inr translatedText \<longrightarrow>
        fst (processTranslation w textToTranslate targetLang clientIp True) =
          Inr \<lparr>res_source_language = getSourceLanguage (franc w) textToTranslate,
               res_target_language = targetLang,
               res_translated_text = translatedText,
               res_status = lit ''regenerated''\<rparr>
        \<and> (redisClient w = Some store \<longrightarrow>
              cache_writes (fst (snd (processTranslation w textToTranslate targetLang clientIp True))) =
                [(cacheKey textToTranslate targetLang, 604800,
                  Json \<lparr>source_language = getSourceLanguage (franc w) textToTranslate,
                        translated_text = translatedText,
                        timestamp = now w, model = GROQ_MODEL\<rparr>)]
              \<and> (redis_setEx_fault w = None \<longrightarrow>
                    redisClient (snd (snd (processTranslation w textToTranslate targetLang clientIp True))) =
                      Some (store(cacheKey textToTranslate targetLang \<mapsto>
                        (604800,
                         Json \<lparr>source_language = getSourceLanguage (franc w) textToTranslate,
                               translated_text = translatedText,
                               timestamp = now w, model = GROQ_MODEL\<rparr>)))))
        \<and> (redisClient w = None \<longrightarrow>
              cache_writes (fst (snd (processTranslation w textToTranslate targetLang clientIp True))) = []))"
proof -
  let ?src = "getSourceLanguage (franc w) textToTranslate"
  let ?call = "callGroqApiWithBackoff w (systemInstruction ?src targetLang) textToTranslate"
  let ?key = "cacheKey textToTranslate targetLang"
  obtain res evs where call: "?call = (res, evs)" by (cases ?call)
  have evs: "cache_reads evs = []" "cache_writes evs = []"
    using callGroq_no_cache[of w "systemInstruction ?src targetLang" textToTranslate] call by simp_all
  have ne: "lit ''regenerated'' \<noteq> lit ''cached''" "lit ''regenerated'' \<noteq> lit ''generated''"
    by (simp_all add: lit_def)
  show ?thesis
  proof (cases res)
    case (Inl e)
    with call have "processTranslation w textToTranslate targetLang clientIp True =
        (Inl (reclassify e), [] @ evs, w)"
      by (intro processTranslation_failure check_cache_force) simp
    with evs call Inl show ?thesis by simp
  next
    case (Inr tt)
    with call have "processTranslation w textToTranslate targetLang clientIp True =
           (Inr \<lparr>res_source_language = ?src, res_target_language = targetLang,
                 res_translated_text = tt,
                 res_status = (if True then lit ''regenerated'' else lit ''generated'')\<rparr>,
            [] @ evs @ fst (cache_result w ?key ?src tt),
            snd (cache_result w ?key ?src tt))"
      by (intro processTranslation_success check_cache_force) simp
    with evs call Inr ne show ?thesis
      by (auto simp: cache_reads_append cache_writes_append cache_result_reads
          cache_result_writes cache_result_store)
  qed
qed

lemma validate_example_request:
  "validateInput (req_body example_request) = Inr (lit ''Hello world'', lit ''Spanish'')"
  by (simp add: example_request_def validateInput_def trimmed_def trim_def lit_def
      is_white_space_def MAX_TEXT_LENGTH_def target_lang_format_def is_ascii_letter_def)

lemma callGroq_first_ok_events:
  "fetch w 0 = upstream_ok \<Longrightarrow>
   callGroqApiWithBackoff w s u =
     (Inr (lit ''Hola mundo''),
      [Fetch \<lparr>url = API_URL, authorization = lit ''Bearer '' @ API_KEY w,
              payload_model = GROQ_MODEL, system_content = s, user_content = u\<rparr>])"
  by (simp add: callGroqApiWithBackoff_def attempts_success MAX_RETRIES_def try_ok)

text \<open>
  Claim C2, as stated, fails: the write is guarded by \<^verbatim>\<open>if (redisClient)\<close> (line 229).
  In a process without a redis client, a validated request with force-refresh succeeds
  upstream, returns \<^verbatim>\<open>regenerated\<close>, and writes nothing.
\<close>

theorem force_refresh_without_client_writes_nothing:
  "validateInput (req_body example_request) = Inr (lit ''Hello world'', lit ''Spanish'')
   \<and> fst (processTranslation example_world (lit ''Hello world'') (lit ''Spanish'')
            (keyGenerator example_request) True) =
       Inr \<lparr>res_source_language = lit ''EN'', res_target_language = lit ''Spanish'',
            res_translated_text = lit ''Hola mundo'', res_status = lit ''regenerated''\<rparr>
   \<and> cache_writes (fst (snd (processTranslation example_world (lit ''Hello world'')
            (lit ''Spanish'') (keyGenerator example_request) True))) = []
   \<and> redisClient (snd (snd (processTranslation example_world (lit ''Hello world'')
            (lit ''Spanish'') (keyGenerator example_request) True))) = None"
proof -
  have f: "fetch example_world 0 = upstream_ok" and c: "redisClient example_world = None"
    by (simp_all add: example_world_def)
  have "cache_result example_world key src tt = ([], example_world)" for key src tt
    by (simp add: cache_result_def c)
  then show ?thesis
    by (simp add: validate_example_request
        processTranslation_success[OF check_cache_force callGroq_first_ok_events[OF f]]
        source_language_example c)
qed

text \<open>
  The theorem at a process whose cache works and is empty.
\<close>

theorem force_refresh_pipeline_witness:
  "cache_reads (fst (snd (processTranslation (healthy_miss example_world)
       (lit ''Hello world'') (lit ''Spanish'') [] True))) = []
   \<and> fst (processTranslation (healthy_miss example_world)
       (lit ''Hello world'') (lit ''Spanish'') [] True) =
       Inr \<lparr>res_source_language = lit ''EN'', res_target_language = lit ''Spanish'',
            res_translated_text = lit ''Hola mundo'', res_status = lit ''regenerated''\<rparr>
   \<and> cache_writes (fst (snd (processTranslation (healthy_miss example_world)
       (lit ''Hello world'') (lit ''Spanish'') [] True))) =
       [(cacheKey (lit ''Hello world'') (lit ''Spanish''), 604800,
         Json \<lparr>source_language = lit ''EN'', translated_text = lit ''Hola mundo'',
               timestamp = 1700000000000, model = GROQ_MODEL\<rparr>)]
   \<and> redisClient (snd (snd (processTranslation (healthy_miss example_world)
       (lit ''Hello world'') (lit ''Spanish'') [] True))) =
       Some ((\<lambda>k. None)(cacheKey (lit ''Hello world'') (lit ''Spanish'') \<mapsto>
         (604800, Json \<lparr>source_language = lit ''EN'', translated_text = lit ''Hola mundo'',
               timestamp = 1700000000000, model = GROQ_MODEL\<rparr>)))"
proof -
  let ?w = "healthy_miss example_world"
  let ?t = "lit ''Hello world''" and ?l = "lit ''Spanish''"
  let ?R = "\<lparr>res_source_language = lit ''EN'', res_target_language = ?l,
            res_translated_text = lit ''Hola mundo'', res_status = lit ''regenerated''\<rparr>"
  have f: "fetch ?w 0 = upstream_ok" by (simp add: healthy_miss_def example_world_def)
  have src: "getSourceLanguage (franc ?w) ?t = lit ''EN''"
    by (simp add: source_language_example)
  have h1: "fst (callGroqApiWithBackoff ?w
              (systemInstruction (getSourceLanguage (franc ?w) ?t) ?l) ?t) = Inr (lit ''Hola mundo'')"
    by (rule callGroq_first_ok[OF f])
  have h2: "redisClient ?w = Some (\<lambda>k. None)" by (simp add: healthy_miss_def)
  have h3: "redis_setEx_fault ?w = None" by (simp add: healthy_miss_def)
  have n: "now ?w = 1700000000000" by (simp add: healthy_miss_def example_world_def)
  note T = force_refresh_pipeline[of ?w ?t ?l "[]" ?R "lit ''Hola mundo''" "\<lambda>k. None"]
  from T have c1: "cache_reads (fst (snd (processTranslation ?w ?t ?l [] True))) = []" by blast
  from T h1 have c2: "fst (processTranslation ?w ?t ?l [] True) =
      Inr \<lparr>res_source_language = getSourceLanguage (franc ?w) ?t, res_target_language = ?l,
            res_translated_text = lit ''Hola mundo'', res_status = lit ''regenerated''\<rparr>" by blast
  from T h1 h2 have c3: "cache_writes (fst (snd (processTranslation ?w ?t ?l [] True))) =
       [(cacheKey ?t ?l, 604800,
         Json \<lparr>source_language = getSourceLanguage (franc ?w) ?t, translated_text = lit ''Hola mundo'',
               timestamp = now ?w, model = GROQ_MODEL\<rparr>)]" by blast
  from T h1 h2 h3 have c4: "redisClient (snd (snd (processTranslation ?w ?t ?l [] True))) =
       Some ((\<lambda>k. None)(cacheKey ?t ?l \<mapsto>
         (604800, Json \<lparr>source_language = getSourceLanguage (franc ?w) ?t, translated_text = lit ''Hola mundo'',
               timestamp = now ?w, model = GROQ_MODEL\<rparr>)))" by blast
  from c1 c2 c3 c4 show ?thesis unfolding src n by simp
qed

subsection \<open>The missing key and the health check\<close>




text \<open>
  Claim C9, as stated, fails on two names: the body of the health route has no field
  \<^verbatim>\<open>cache_backend_status\<close> and no field \<^verbatim>\<open>upstream_configured\<close>. The source calls them
  \<^verbatim>\<open>redis\<close> and \<^verbatim>\<open>groq_api\<close>.
\<close>

theorem health_field_names:
  "lit ''cache_backend_status'' \<notin> set (body_fields (fst (api_health example_world)))
   \<and> lit ''upstream_configured'' \<notin> set (body_fields (fst (api_health example_world)))"
  by (simp add: api_health_def Let_def lit_def)

text \<open>
  Claim C9, amended. The health route always answers 200 with a JSON body whose fields
  are \<^verbatim>\<open>status\<close>, \<^verbatim>\<open>redis\<close>, \<^verbatim>\<open>groq_api\<close>, \<^verbatim>\<open>max_text_length\<close>, \<^verbatim>\<open>rate_limit\<close> and
  \<^verbatim>\<open>timestamp\<close>, in this order.
\<close>

theorem health_response:
  "status_sent (fst (api_health w)) = Some 200
   \<and> body_fields (fst (api_health w)) =
       [lit ''status'', lit ''redis'', lit ''groq_api'', lit ''max_text_length'',
        lit ''rate_limit'', lit ''timestamp'']"
  by (simp add: api_health_def Let_def)

text \<open>
  The theorem at the example process: the whole answer.
\<close>

theorem health_response_witness:
  "api_health example_world =
     (Responded 200
        [(lit ''status'', JString (lit ''healthy'')),
         (lit ''redis'', JString (lit ''disconnected'')),
         (lit ''groq_api'', JString (lit ''configured'')),
         (lit ''max_text_length'', JNumber 2000),
         (lit ''rate_limit'', JString (lit ''1 second(s)'')),
         (lit ''timestamp'', JNumber 1700000000000)], [])
   \<and> status_sent (fst (api_health example_world)) = Some 200"
  using health_response[of example_world]
  by (simp add: api_health_def Let_def example_world_def MAX_TEXT_LENGTH_def lit_def)

end
